theory Spec2Isabelle
  imports Main
begin

section \<open>Data model\<close>

subsection \<open>Values held in the session bag\<close>

text \<open>
  Modelled from the spec: the declarations of \<^verbatim>\<open>./types\<close> (\<^verbatim>\<open>BlitzWareUser\<close>,
  \<^verbatim>\<open>TokenResponse\<close>, \<^verbatim>\<open>BlitzWareAuthError\<close>) are not among the sources; the
  records below follow the data model of the specification (UserProfile: id, username,
  optional email, optional roles).
\<close>

record BlitzWareUser =
  user_id :: string
  username :: string
  email :: "string option"
  roles :: "string list option"

text \<open>
  The session is read as \<^verbatim>\<open>req.session as any\<close>, so a property holds an arbitrary
  JavaScript value. \<open>truthy\<close> is the test that \<^verbatim>\<open>if (x)\<close> and \<^verbatim>\<open>!x\<close> perform.
  Numbers are integers here (NaN, the other falsy number, is left out).
\<close>

datatype jsval =
    Undefined
  | Null
  | JBool bool
  | JNum int
  | JStr string
  | JObj BlitzWareUser

fun truthy :: "jsval \<Rightarrow> bool" where
  "truthy Undefined = False"
| "truthy Null = False"
| "truthy (JBool b) = b"
| "truthy (JNum n) = (n \<noteq> 0)"
| "truthy (JStr s) = (s \<noteq> [])"
| "truthy (JObj u) = True"

text \<open>
  Modelled from the spec: TokenResponse (\<^verbatim>\<open>./types\<close> is not among the sources):
  \<^verbatim>\<open>access_token\<close>, \<^verbatim>\<open>token_type\<close>, \<^verbatim>\<open>expires_in\<close>, \<^verbatim>\<open>scope\<close> and the optional
  \<^verbatim>\<open>refresh_token\<close> (\<open>None\<close> when the field is absent).
\<close>

record TokenResponse =
  access_token :: string
  token_type :: string
  expires_in :: nat
  scope :: string
  refresh_token :: "string option"

text \<open>
  Modelled from the spec: the structured error of the error taxonomy (a code, a message,
  optional details). \<open>OtherError\<close> is any thrown value that is not an instance of
  \<^verbatim>\<open>BlitzWareAuthError\<close>.
\<close>

datatype error =
    BlitzWareAuthError string string "string option"
  | OtherError string

subsection \<open>The protocol client, as the handlers use it\<close>

text \<open>
  The class \<^verbatim>\<open>BlitzWareAuth\<close> is imported by the middleware and is not among the
  sources. The handlers take it as a parameter: one field per method they call, giving
  the outcome of that call (\<open>Inl\<close> is a rejected promise or a throw). Each handler calls
  each method at most once, so a function of the argument is enough.
\<close>

record BlitzWareAuth =
  validateTokenAndGetUser :: "jsval \<Rightarrow> error + BlitzWareUser"
  refreshToken :: "jsval \<Rightarrow> error + TokenResponse"
  getUserInfo :: "string \<Rightarrow> error + BlitzWareUser"
  handleCallback :: "(string \<times> string) list \<Rightarrow> jsval \<Rightarrow> jsval \<Rightarrow> error + TokenResponse"
  logout :: "error + unit"
  getBaseUrl :: string
  getConfig_clientId :: string

subsection \<open>Effects\<close>

datatype call =
    ValidateTokenAndGetUser jsval
  | RefreshToken jsval
  | GetUserInfo string
  | HandleCallback "(string \<times> string) list" jsval jsval
  | Logout

datatype level = LError | LWarn | LInfo | LDebug

text \<open>
  What a handler does besides answering: calls of the protocol client that go to the
  network, assignments to session properties, calls of the logger, response headers.
\<close>

datatype event =
    Call call
  | Write string jsval
  | Log level string
  | SetHeader string string

text \<open>
  How a handler ends: \<^verbatim>\<open>res.redirect(url)\<close>, \<^verbatim>\<open>res.status(n).send(body)\<close>,
  \<^verbatim>\<open>next()\<close>, or an exception that leaves the handler.
\<close>

datatype response =
    Redirect string
  | Send nat string
  | CallNext
  | Throw error

text \<open>
  The request object as the handlers see it: the session (\<open>None\<close> when
  \<^verbatim>\<open>req.session\<close> is undefined), the two fields the middleware attaches, the parts of
  the request the callback reads, and the log of the effects performed so far.
\<close>

record world =
  session :: "(string \<Rightarrow> jsval) option"
  blitzwareUser :: jsval
  blitzwareAccessToken :: jsval
  query :: "(string \<times> string) list"
  protocol :: string
  host :: "string option"
  trace :: "event list"

definition emit :: "event \<Rightarrow> world \<Rightarrow> world" where
  "emit e w = w\<lparr>trace := trace w @ [e]\<rparr>"

text \<open>\<^verbatim>\<open>session[k]\<close>: a property that was never set reads as undefined.\<close>

definition session_get :: "string \<Rightarrow> world \<Rightarrow> jsval" where
  "session_get k w = (case session w of None \<Rightarrow> Undefined | Some s \<Rightarrow> s k)"

text \<open>\<^verbatim>\<open>session[k] = v\<close>; the handlers reach it only after the session check.\<close>

definition session_set :: "string \<Rightarrow> jsval \<Rightarrow> world \<Rightarrow> world" where
  "session_set k v w =
     emit (Write k v) (w\<lparr>session := map_option (\<lambda>s. s(k := v)) (session w)\<rparr>)"

definition calls :: "event list \<Rightarrow> call list" where
  "calls es = concat (map (\<lambda>e. case e of Call c \<Rightarrow> [c] | _ \<Rightarrow> []) es)"

definition writes :: "event list \<Rightarrow> (string \<times> jsval) list" where
  "writes es = concat (map (\<lambda>e. case e of Write k v \<Rightarrow> [(k, v)] | _ \<Rightarrow> []) es)"

text \<open>A destructuring default \<^verbatim>\<open>{ x = d } = config\<close>.\<close>

definition dflt :: "'a \<Rightarrow> 'a option \<Rightarrow> 'a" where
  "dflt d x = (case x of None \<Rightarrow> d | Some v \<Rightarrow> v)"

section \<open>The token-validated middleware\<close>

text \<open>
  \<^verbatim>\<open>requireBlitzwareSession\<close> takes the \<^verbatim>\<open>Pick\<close> of three options of
  \<^verbatim>\<open>BlitzWareMiddlewareConfig\<close>, so the full configuration extends that record. The
  logger option is the \<open>Log\<close> events of the trace.
\<close>

record SessionConfig =
  userProperty :: "string option"
  loginUrl :: "string option"
  attachUser :: "bool option"

record BlitzWareMiddlewareConfig = SessionConfig +
  blitzware :: BlitzWareAuth
  accessTokenProperty :: "string option"
  refreshTokenProperty :: "string option"
  autoRefresh :: "bool option"

definition userProperty' :: "'a SessionConfig_scheme \<Rightarrow> string" where
  "userProperty' config = dflt ''user'' (userProperty config)"

definition loginUrl' :: "'a SessionConfig_scheme \<Rightarrow> string" where
  "loginUrl' config = dflt ''/login'' (loginUrl config)"

definition attachUser' :: "'a SessionConfig_scheme \<Rightarrow> bool" where
  "attachUser' config = dflt True (attachUser config)"

definition accessTokenProperty' :: "'a BlitzWareMiddlewareConfig_scheme \<Rightarrow> string" where
  "accessTokenProperty' config = dflt ''accessToken'' (accessTokenProperty config)"

definition refreshTokenProperty' :: "'a BlitzWareMiddlewareConfig_scheme \<Rightarrow> string" where
  "refreshTokenProperty' config = dflt ''refreshToken'' (refreshTokenProperty config)"

definition autoRefresh' :: "'a BlitzWareMiddlewareConfig_scheme \<Rightarrow> bool" where
  "autoRefresh' config = dflt True (autoRefresh config)"

text \<open>
  The three assignments of null that both failure branches of \<^verbatim>\<open>blitzwareAuth\<close> make
  (lines 133-135 and 141-143).
\<close>

definition clear_session :: "BlitzWareMiddlewareConfig \<Rightarrow> world \<Rightarrow> world" where
  "clear_session config w =
     session_set (userProperty' config) Null
       (session_set (refreshTokenProperty' config) Null
         (session_set (accessTokenProperty' config) Null w))"

text \<open>\<^verbatim>\<open>if (attachUser) { req.blitzwareUser = user; req.blitzwareAccessToken = token }\<close>\<close>

definition attach :: "BlitzWareMiddlewareConfig \<Rightarrow> BlitzWareUser \<Rightarrow> jsval \<Rightarrow> world \<Rightarrow> world" where
  "attach config user token w =
     (if attachUser' config
      then w\<lparr>blitzwareUser := JObj user, blitzwareAccessToken := token\<rparr>
      else w)"

text \<open>
  Lines 112-115 (and 253-256 of the callback): the new access token is stored; the
  refresh token only when the response carries a truthy one (a string that is not
  empty).
\<close>

definition store_tokens :: "string \<Rightarrow> string \<Rightarrow> TokenResponse \<Rightarrow> world \<Rightarrow> world" where
  "store_tokens accessTokenProp refreshTokenProp tokenResponse w =
     (let w1 = session_set accessTokenProp (JStr (access_token tokenResponse)) w
      in case refresh_token tokenResponse of
           None \<Rightarrow> w1
         | Some r \<Rightarrow> if r \<noteq> [] then session_set refreshTokenProp (JStr r) w1 else w1)"

text \<open>
  The body of the inner \<^verbatim>\<open>try\<close> of the refresh branch (lines 107-129). \<open>Inl\<close> is the
  exception its \<^verbatim>\<open>catch (refreshError)\<close> receives; the world returned with it holds the
  assignments made before the throw.
\<close>

definition refresh_try :: "BlitzWareMiddlewareConfig \<Rightarrow> world \<Rightarrow> (error + response) \<times> world" where
  "refresh_try config w =
     (let token = session_get (refreshTokenProperty' config) w;
          w1 = emit (Call (RefreshToken token)) w
      in case refreshToken (blitzware config) token of
           Inl e \<Rightarrow> (Inl e, w1)
         | Inr tokenResponse \<Rightarrow>
             (let w2 = store_tokens (accessTokenProperty' config) (refreshTokenProperty' config)
                         tokenResponse w1;
                  w3 = emit (Call (GetUserInfo (access_token tokenResponse))) w2
              in case getUserInfo (blitzware config) (access_token tokenResponse) of
                   Inl e \<Rightarrow> (Inl e, w3)
                 | Inr user \<Rightarrow>
                     (Inr CallNext,
                      session_set (userProperty' config) (JObj user)
                        (attach config user (JStr (access_token tokenResponse)) w3))))"

text \<open>
  The handler that \<^verbatim>\<open>blitzwareAuth(config)\<close> returns. The calls of \<^verbatim>\<open>res\<close>, of
  \<^verbatim>\<open>next\<close> and of the logger do not throw, so the outer \<^verbatim>\<open>catch\<close> (the response
  500 "Authentication error") is never entered.
\<close>

definition blitzwareAuth :: "BlitzWareMiddlewareConfig \<Rightarrow> world \<Rightarrow> response \<times> world" where
  "blitzwareAuth config w =
     (case session w of
        None \<Rightarrow>
          (Send 500 ''Session configuration error'',
           emit (Log LError
             ''Session not found. Make sure express-session middleware is configured.'') w)
      | Some s \<Rightarrow>
          (let accessToken = s (accessTokenProperty' config)
           in if \<not> truthy accessToken then (Redirect (loginUrl' config), w)
              else
                (let w1 = emit (Call (ValidateTokenAndGetUser accessToken)) w
                 in case validateTokenAndGetUser (blitzware config) accessToken of
                      Inr user \<Rightarrow>
                        (CallNext,
                         session_set (userProperty' config) (JObj user)
                           (attach config user accessToken w1))
                    | Inl err \<Rightarrow>
                        if autoRefresh' config
                           \<and> truthy (session_get (refreshTokenProperty' config) w1)
                        then
                          (case refresh_try config w1 of
                             (Inr r, w2) \<Rightarrow> (r, w2)
                           | (Inl refreshError, w2) \<Rightarrow>
                               (Redirect (loginUrl' config),
                                clear_session config (emit (Log LWarn ''Token refresh failed'') w2)))
                        else
                          (Redirect (loginUrl' config),
                           clear_session config
                             (emit (Log LWarn ''Token validation failed'') w1)))))"

section \<open>The session-only middleware\<close>

text \<open>
  \<^verbatim>\<open>requireBlitzwareSession\<close> logs through \<^verbatim>\<open>defaultLogger\<close>, whose functions do
  nothing, so its error message leaves no event.
\<close>

definition requireBlitzwareSession :: "'a SessionConfig_scheme \<Rightarrow> world \<Rightarrow> response \<times> world" where
  "requireBlitzwareSession config w =
     (case session w of
        None \<Rightarrow> (Send 500 ''Session configuration error'', w)
      | Some s \<Rightarrow>
          (let user = s (userProperty' config)
           in if \<not> truthy user then (Redirect (loginUrl' config), w)
              else (CallNext,
                    if attachUser' config then w\<lparr>blitzwareUser := user\<rparr> else w)))"


section \<open>The callback handler\<close>

subsection \<open>The URL object the failure redirect is built with\<close>

text \<open>
  \<^verbatim>\<open>URL\<close> is the platform's class. A parsed URL is kept as the serialised scheme,
  authority and path, the list of query pairs that \<^verbatim>\<open>searchParams\<close> exposes, and the
  fragment. The parser itself (\<^verbatim>\<open>new URL(input, base)\<close>, which throws on an invalid
  URL) is a parameter of the handler; \<^verbatim>\<open>searchParams.set\<close> and the serialisation that
  follows an update of the query are written out.
\<close>

record URL =
  url_path :: string
  searchParams :: "(string \<times> string) list"
  hash :: string

text \<open>
  \<^verbatim>\<open>searchParams.set(name, value)\<close>: the first pair of that name takes the value and
  the other pairs of that name are removed; without such a pair, one is appended.
\<close>

fun searchParams_set :: "string \<Rightarrow> string \<Rightarrow> (string \<times> string) list \<Rightarrow> (string \<times> string) list" where
  "searchParams_set name v [] = [(name, v)]"
| "searchParams_set name v ((k, x) # ps) =
     (if k = name then (name, v) # filter (\<lambda>p. fst p \<noteq> name) ps
      else (k, x) # searchParams_set name v ps)"

definition hex_digit :: "nat \<Rightarrow> char" where
  "hex_digit n = ''0123456789ABCDEF'' ! (n mod 16)"

text \<open>The application/x-www-form-urlencoded serialiser, on the bytes of a string.\<close>

definition urlencode_byte :: "char \<Rightarrow> string" where
  "urlencode_byte c =
     (if c = CHR '' '' then ''+''
      else if c \<in> set ''*-._0123456789ABCDEFGHIJKLMNOPQRSTUVWXYZabcdefghijklmnopqrstuvwxyz''
      then [c]
      else [CHR ''%'', hex_digit (of_char c div 16), hex_digit (of_char c mod 16)])"

definition urlencode :: "string \<Rightarrow> string" where
  "urlencode s = concat (map urlencode_byte s)"

fun serialize_params :: "(string \<times> string) list \<Rightarrow> string" where
  "serialize_params [] = []"
| "serialize_params [(k, v)] = urlencode k @ ''='' @ urlencode v"
| "serialize_params ((k, v) # p # ps) =
     urlencode k @ ''='' @ urlencode v @ ''&'' @ serialize_params (p # ps)"

text \<open>\<^verbatim>\<open>url.toString()\<close> after the query list was updated.\<close>

definition URL_toString :: "URL \<Rightarrow> string" where
  "URL_toString url =
     url_path url
     @ (if searchParams url = [] then [] else ''?'' @ serialize_params (searchParams url))
     @ hash url"

subsection \<open>The handler\<close>

text \<open>
  The options of \<^verbatim>\<open>blitzwareCallback\<close>. The options it shares by name with the
  middleware configuration carry the prefix \<open>cb_\<close>.
\<close>

record CallbackConfig =
  cb_blitzware :: BlitzWareAuth
  successRedirect :: "string option"
  errorRedirect :: "string option"
  cb_accessTokenProperty :: "string option"
  cb_refreshTokenProperty :: "string option"
  cb_userProperty :: "string option"
  stateProperty :: "string option"
  codeVerifierProperty :: "string option"

definition successRedirect' :: "CallbackConfig \<Rightarrow> string" where
  "successRedirect' config = dflt ''/'' (successRedirect config)"

definition errorRedirect' :: "CallbackConfig \<Rightarrow> string" where
  "errorRedirect' config = dflt ''/login?error=auth_failed'' (errorRedirect config)"

definition cb_accessTokenProperty' :: "CallbackConfig \<Rightarrow> string" where
  "cb_accessTokenProperty' config = dflt ''accessToken'' (cb_accessTokenProperty config)"

definition cb_refreshTokenProperty' :: "CallbackConfig \<Rightarrow> string" where
  "cb_refreshTokenProperty' config = dflt ''refreshToken'' (cb_refreshTokenProperty config)"

definition cb_userProperty' :: "CallbackConfig \<Rightarrow> string" where
  "cb_userProperty' config = dflt ''user'' (cb_userProperty config)"

definition stateProperty' :: "CallbackConfig \<Rightarrow> string" where
  "stateProperty' config = dflt ''oauthState'' (stateProperty config)"

definition codeVerifierProperty' :: "CallbackConfig \<Rightarrow> string" where
  "codeVerifierProperty' config = dflt ''codeVerifier'' (codeVerifierProperty config)"

text \<open>
  The \<^verbatim>\<open>try\<close> block after the session check (lines 242-266). \<open>Inl\<close> is the exception
  the \<^verbatim>\<open>catch\<close> receives, with the world as the assignments before the throw left it.
\<close>

definition callback_try :: "CallbackConfig \<Rightarrow> world \<Rightarrow> (error + response) \<times> world" where
  "callback_try config w =
     (let expectedState = session_get (stateProperty' config) w;
          codeVerifier = session_get (codeVerifierProperty' config) w;
          w1 = emit (Call (HandleCallback (query w) expectedState codeVerifier)) w
      in case handleCallback (cb_blitzware config) (query w) expectedState codeVerifier of
           Inl e \<Rightarrow> (Inl e, w1)
         | Inr tokenResponse \<Rightarrow>
             (let w2 = store_tokens (cb_accessTokenProperty' config)
                         (cb_refreshTokenProperty' config) tokenResponse w1;
                  w3 = emit (Call (GetUserInfo (access_token tokenResponse))) w2
              in case getUserInfo (cb_blitzware config) (access_token tokenResponse) of
                   Inl e \<Rightarrow> (Inl e, w3)
                 | Inr user \<Rightarrow>
                     (Inr (Redirect (successRedirect' config)),
                      session_set (codeVerifierProperty' config) Null
                        (session_set (stateProperty' config) Null
                          (session_set (cb_userProperty' config) (JObj user) w3)))))"

text \<open>The base of the failure URL: \<^verbatim>\<open>`${req.protocol}://${req.get("host")}`\<close>.\<close>

definition request_base :: "world \<Rightarrow> string" where
  "request_base w =
     protocol w @ ''://'' @ (case host w of None \<Rightarrow> ''undefined'' | Some h \<Rightarrow> h)"

text \<open>
  The \<^verbatim>\<open>catch\<close> block (lines 268-282). An exception of the URL constructor is thrown
  inside the \<^verbatim>\<open>catch\<close> and leaves the handler.
\<close>

definition callback_catch ::
  "(string \<Rightarrow> string \<Rightarrow> URL option) \<Rightarrow> CallbackConfig \<Rightarrow> error \<Rightarrow> world \<Rightarrow> response \<times> world" where
  "callback_catch newURL config err w =
     (let w1 = emit (Log LWarn ''OAuth callback failed'') w
      in case newURL (errorRedirect' config) (request_base w) of
           None \<Rightarrow> (Throw (OtherError ''Invalid URL''), w1)
         | Some url \<Rightarrow>
             (case err of
                BlitzWareAuthError code msg details \<Rightarrow>
                  (Redirect (URL_toString
                     (url\<lparr>searchParams := searchParams_set ''error_code'' code (searchParams url)\<rparr>)),
                   w1)
              | OtherError msg \<Rightarrow>
                  (Redirect (URL_toString
                     (url\<lparr>searchParams :=
                        searchParams_set ''error'' ''auth_failed'' (searchParams url)\<rparr>)),
                   w1)))"

definition blitzwareCallback ::
  "(string \<Rightarrow> string \<Rightarrow> URL option) \<Rightarrow> CallbackConfig \<Rightarrow> world \<Rightarrow> response \<times> world" where
  "blitzwareCallback newURL config w =
     (case session w of
        None \<Rightarrow>
          (Send 500 ''Session configuration error'',
           emit (Log LError
             ''Session not found. Make sure express-session middleware is configured.'') w)
      | Some s \<Rightarrow>
          (case callback_try config w of
             (Inr r, w1) \<Rightarrow> (r, w1)
           | (Inl err, w1) \<Rightarrow> callback_catch newURL config err w1))"

section \<open>The logout handler\<close>

text \<open>
  The options of \<^verbatim>\<open>blitzwareLogout\<close>; those it shares by name with the middleware
  configuration carry the prefix \<open>lo_\<close>.
\<close>

record LogoutConfig =
  lo_blitzware :: BlitzWareAuth
  redirectUrl :: "string option"
  lo_accessTokenProperty :: "string option"
  lo_refreshTokenProperty :: "string option"
  lo_userProperty :: "string option"
  frontChannel :: "bool option"

definition redirectUrl' :: "LogoutConfig \<Rightarrow> string" where
  "redirectUrl' config = dflt ''/'' (redirectUrl config)"

definition lo_accessTokenProperty' :: "LogoutConfig \<Rightarrow> string" where
  "lo_accessTokenProperty' config = dflt ''accessToken'' (lo_accessTokenProperty config)"

definition lo_refreshTokenProperty' :: "LogoutConfig \<Rightarrow> string" where
  "lo_refreshTokenProperty' config = dflt ''refreshToken'' (lo_refreshTokenProperty config)"

definition lo_userProperty' :: "LogoutConfig \<Rightarrow> string" where
  "lo_userProperty' config = dflt ''user'' (lo_userProperty config)"

definition frontChannel' :: "LogoutConfig \<Rightarrow> bool" where
  "frontChannel' config = dflt True (frontChannel config)"










section \<open>Concrete requests\<close>

text \<open>
  A client whose five calls have fixed outcomes, the configurations that pass only the
  client (every other option takes its default), and a few sessions. The theorems below
  are applied to them.
\<close>

fun is_server_error :: "response \<Rightarrow> bool" where
  "is_server_error (Send n body) = (500 \<le> n)"
| "is_server_error r = False"

definition alice :: BlitzWareUser where
  "alice = \<lparr>user_id = ''u1'', username = ''alice'', email = None, roles = None\<rparr>"

definition token_inactive :: error where
  "token_inactive = BlitzWareAuthError ''token_inactive'' ''Token is not active'' None"

definition token_refresh_failed :: error where
  "token_refresh_failed = BlitzWareAuthError ''token_refresh_failed'' ''Failed to refresh token'' None"

definition userinfo_failed :: error where
  "userinfo_failed = BlitzWareAuthError ''userinfo_failed'' ''Failed to get user information'' None"

definition invalid_state :: error where
  "invalid_state = BlitzWareAuthError ''invalid_state'' ''Invalid state parameter'' None"

definition new_tokens :: "string option \<Rightarrow> TokenResponse" where
  "new_tokens r =
     \<lparr>access_token = ''a2'', token_type = ''Bearer'', expires_in = 3600, scope = ''read'',
      refresh_token = r\<rparr>"

definition stub_client ::
  "error + BlitzWareUser \<Rightarrow> error + TokenResponse \<Rightarrow> error + BlitzWareUser
     \<Rightarrow> error + TokenResponse \<Rightarrow> error + unit \<Rightarrow> BlitzWareAuth" where
  "stub_client validated refreshed userinfo exchanged loggedout =
     \<lparr>validateTokenAndGetUser = (\<lambda>t. validated), refreshToken = (\<lambda>t. refreshed),
      getUserInfo = (\<lambda>t. userinfo), handleCallback = (\<lambda>q s v. exchanged),
      logout = loggedout, getBaseUrl = ''https://auth.blitzware.xyz/api/auth/'',
      getConfig_clientId = ''client-1''\<rparr>"

text \<open>The access token is rejected, the refresh succeeds, the profile cannot be fetched.\<close>

definition client_profile_down :: BlitzWareAuth where
  "client_profile_down =
     stub_client (Inl token_inactive) (Inr (new_tokens None)) (Inl userinfo_failed)
       (Inr (new_tokens None)) (Inr ())"

text \<open>The access token is rejected, the refresh (with or without rotation) and the profile succeed.\<close>

definition client_refreshing :: "string option \<Rightarrow> BlitzWareAuth" where
  "client_refreshing r =
     stub_client (Inl token_inactive) (Inr (new_tokens r)) (Inr alice) (Inr (new_tokens r)) (Inr ())"

text \<open>Every call is rejected with a structured error.\<close>

definition client_rejecting :: BlitzWareAuth where
  "client_rejecting =
     stub_client (Inl token_inactive) (Inl token_refresh_failed) (Inl userinfo_failed)
       (Inl invalid_state) (Inl (BlitzWareAuthError ''network_error'' ''Network error'' None))"

text \<open>The code exchange throws something that is not a structured error.\<close>

definition client_crashing :: BlitzWareAuth where
  "client_crashing =
     stub_client (Inl token_inactive) (Inl token_refresh_failed) (Inl userinfo_failed)
       (Inl (OtherError ''socket hang up'')) (Inl (OtherError ''socket hang up''))"

definition default_config :: "BlitzWareAuth \<Rightarrow> BlitzWareMiddlewareConfig" where
  "default_config client =
     \<lparr>userProperty = None, loginUrl = None, attachUser = None, blitzware = client,
      accessTokenProperty = None, refreshTokenProperty = None, autoRefresh = None\<rparr>"

definition default_callback :: "BlitzWareAuth \<Rightarrow> CallbackConfig" where
  "default_callback client =
     \<lparr>cb_blitzware = client, successRedirect = None, errorRedirect = None,
      cb_accessTokenProperty = None, cb_refreshTokenProperty = None, cb_userProperty = None,
      stateProperty = None, codeVerifierProperty = None\<rparr>"

definition default_logout :: "BlitzWareAuth \<Rightarrow> bool option \<Rightarrow> LogoutConfig" where
  "default_logout client front =
     \<lparr>lo_blitzware = client, redirectUrl = None, lo_accessTokenProperty = None,
      lo_refreshTokenProperty = None, lo_userProperty = None, frontChannel = front\<rparr>"

definition request_with :: "(string \<Rightarrow> jsval) option \<Rightarrow> world" where
  "request_with s =
     \<lparr>session = s, blitzwareUser = Undefined, blitzwareAccessToken = Undefined,
      query = [(''code'', ''c1''), (''state'', ''st1'')], protocol = ''http'',
      host = Some ''localhost:3000'', trace = []\<rparr>"

definition empty_session :: "string \<Rightarrow> jsval" where
  "empty_session = (\<lambda>k. Undefined)"

definition expired_session :: "string \<Rightarrow> jsval" where
  "expired_session =
     empty_session(''accessToken'' := JStr ''a1'', ''refreshToken'' := JStr ''r1'')"

definition login_session :: "string \<Rightarrow> jsval" where
  "login_session =
     empty_session(''oauthState'' := JStr ''st1'', ''codeVerifier'' := JStr ''cv1'')"

definition populated_session :: "string \<Rightarrow> jsval" where
  "populated_session =
     empty_session(''accessToken'' := JStr ''a1'', ''refreshToken'' := JStr ''r1'',
       ''user'' := JObj alice)"

text \<open>The URL constructor on the default failure location; any other input is refused.\<close>

definition login_URL :: "string \<Rightarrow> string \<Rightarrow> URL option" where
  "login_URL input base =
     (if input = ''/login?error=auth_failed''
      then Some \<lparr>url_path = base @ ''/login'', searchParams = [(''error'', ''auth_failed'')],
                 hash = []\<rparr>
      else None)"

fun is_redirect :: "response \<Rightarrow> bool" where
  "is_redirect (Redirect location) = True"
| "is_redirect r = False"

text \<open>
  The URL constructor refuses a base whose host is empty, as the platform's does for the
  schemes http and https; on any other base it is \<open>login_URL\<close>.
\<close>

definition URL_requiring_host :: "string \<Rightarrow> string \<Rightarrow> URL option" where
  "URL_requiring_host input base =
     (if base = ''http://'' \<or> base = ''https://'' then None else login_URL input base)"

text \<open>A request whose Host header is empty: \<^verbatim>\<open>req.get("host")\<close> is the empty string.\<close>

definition request_with_empty_host :: "(string \<Rightarrow> jsval) option \<Rightarrow> world" where
  "request_with_empty_host s =
     \<lparr>session = s, blitzwareUser = Undefined, blitzwareAccessToken = Undefined,
      query = [(''code'', ''c1''), (''state'', ''st1'')], protocol = ''http'',
      host = Some [], trace = []\<rparr>"

section \<open>Basic facts\<close>

lemmas option_defs =
  dflt_def userProperty'_def loginUrl'_def attachUser'_def accessTokenProperty'_def
  refreshTokenProperty'_def autoRefresh'_def successRedirect'_def errorRedirect'_def
  cb_accessTokenProperty'_def cb_refreshTokenProperty'_def cb_userProperty'_def
  stateProperty'_def codeVerifierProperty'_def redirectUrl'_def lo_accessTokenProperty'_def
  lo_refreshTokenProperty'_def lo_userProperty'_def frontChannel'_def

lemmas example_defs =
  alice_def token_inactive_def token_refresh_failed_def userinfo_failed_def invalid_state_def
  new_tokens_def stub_client_def client_profile_down_def client_refreshing_def
  client_rejecting_def client_crashing_def default_config_def default_callback_def
  default_logout_def request_with_def empty_session_def expired_session_def
  login_session_def populated_session_def login_URL_def

lemma session_emit [simp]: "session (emit e w) = session w"
  by (simp add: emit_def)

lemma trace_emit [simp]: "trace (emit e w) = trace w @ [e]"
  by (simp add: emit_def)

lemma session_session_set [simp]:
  "session (session_set k v w) = map_option (\<lambda>s. s(k := v)) (session w)"
  by (simp add: session_set_def)

lemma trace_session_set [simp]: "trace (session_set k v w) = trace w @ [Write k v]"
  by (simp add: session_set_def)

lemma session_get_Some [simp]: "session w = Some s \<Longrightarrow> session_get k w = s k"
  by (simp add: session_get_def)

lemma calls_append [simp]: "calls (xs @ ys) = calls xs @ calls ys"
  by (simp add: calls_def)

lemma calls_simps [simp]:
  "calls [] = []"
  "calls (Call c # es) = c # calls es"
  "calls (Write k v # es) = calls es"
  "calls (Log l m # es) = calls es"
  "calls (SetHeader h x # es) = calls es"
  by (simp_all add: calls_def)

lemma writes_append [simp]: "writes (xs @ ys) = writes xs @ writes ys"
  by (simp add: writes_def)

lemma writes_simps [simp]:
  "writes [] = []"
  "writes (Call c # es) = writes es"
  "writes (Write k v # es) = (k, v) # writes es"
  "writes (Log l m # es) = writes es"
  "writes (SetHeader h x # es) = writes es"
  by (simp_all add: writes_def)

lemma searchParams_set_same:
  "filter (\<lambda>p. fst p = name) (searchParams_set name v ps) = [(name, v)]"
  by (induction name v ps rule: searchParams_set.induct) (auto simp: filter_empty_conv)

lemma searchParams_set_others:
  "filter (\<lambda>p. fst p \<noteq> name) (searchParams_set name v ps) = filter (\<lambda>p. fst p \<noteq> name) ps"
  by (induction name v ps rule: searchParams_set.induct) auto

lemma searchParams_set_other_name:
  "other \<noteq> name \<Longrightarrow>
   filter (\<lambda>p. fst p = other) (searchParams_set name v ps) = filter (\<lambda>p. fst p = other) ps"
proof (induction name v ps rule: searchParams_set.induct)
  case (1 name v)
  then show ?case by simp
next
  case (2 name v k x ps)
  have "filter (\<lambda>p. fst p = other) (filter (\<lambda>p. fst p \<noteq> name) ps) = filter (\<lambda>p. fst p = other) ps"
    using "2.prems" by (induction ps) auto
  with 2 show ?case by auto
qed

lemma request_base_callback_try:
  "request_base (snd (callback_try config w)) = request_base w"
  by (simp add: callback_try_def Let_def store_tokens_def session_set_def emit_def
      request_base_def split: sum.splits option.splits)





section \<open>The token-validated middleware: outcomes\<close>

text \<open>
  C4. A session that exists and holds no (truthy) access token under the configured key:
  the middleware redirects to the login URL, and the request, its session and the trace
  are what they were, so no call of the protocol client and no session write happened.
\<close>

theorem C4_no_token_redirects:
  assumes "session w = Some s" and "\<not> truthy (s (accessTokenProperty' config))"
  shows "blitzwareAuth config w = (Redirect (loginUrl' config), w)"
  using assms by (simp add: blitzwareAuth_def)

theorem C4_no_token_redirects_witness:
  "session (request_with (Some empty_session)) = Some empty_session
   \<and> \<not> truthy (empty_session ''accessToken'')
   \<and> blitzwareAuth (default_config client_rejecting) (request_with (Some empty_session))
       = (Redirect ''/login'', request_with (Some empty_session))"
  using C4_no_token_redirects [where w = "request_with (Some empty_session)"
      and s = empty_session and config = "default_config client_rejecting"]
  by (simp add: example_defs option_defs)

text \<open>
  C6. Without a session object both middlewares answer 500 "Session configuration error".
  The token-validated one only logs, so the calls in its trace are those that were there;
  the session-only one leaves request and trace as they were.
\<close>

theorem C6_no_session_is_configuration_error:
  assumes "session w = None"
  shows "fst (blitzwareAuth config w) = Send 500 ''Session configuration error''
       \<and> calls (trace (snd (blitzwareAuth config w))) = calls (trace w)
       \<and> writes (trace (snd (blitzwareAuth config w))) = writes (trace w)
       \<and> requireBlitzwareSession config' w = (Send 500 ''Session configuration error'', w)"
  using assms by (simp add: blitzwareAuth_def requireBlitzwareSession_def)

theorem C6_no_session_is_configuration_error_witness:
  "session (request_with None) = None
   \<and> fst (blitzwareAuth (default_config client_rejecting) (request_with None))
       = Send 500 ''Session configuration error''
   \<and> calls (trace (snd (blitzwareAuth (default_config client_rejecting) (request_with None)))) = []
   \<and> requireBlitzwareSession (default_config client_rejecting) (request_with None)
       = (Send 500 ''Session configuration error'', request_with None)"
  using C6_no_session_is_configuration_error [where w = "request_with None"
      and config = "default_config client_rejecting"
      and config' = "default_config client_rejecting"]
  by (simp add: request_with_def)

text \<open>
  C3. The access token fails validation and the middleware gives up: auto-refresh is off,
  or the session holds no (truthy) refresh token, or the refresh call fails. The three
  session properties are null afterwards and the response is the redirect to the login
  URL.
\<close>

theorem C3_abandon_clears_and_redirects:
  assumes "session w = Some s"
    and "truthy (s (accessTokenProperty' config))"
    and "validateTokenAndGetUser (blitzware config) (s (accessTokenProperty' config)) = Inl e1"
    and "\<not> autoRefresh' config \<or> \<not> truthy (s (refreshTokenProperty' config))
         \<or> isl (refreshToken (blitzware config) (s (refreshTokenProperty' config)))"
  shows "fst (blitzwareAuth config w) = Redirect (loginUrl' config)
       \<and> session_get (accessTokenProperty' config) (snd (blitzwareAuth config w)) = Null
       \<and> session_get (refreshTokenProperty' config) (snd (blitzwareAuth config w)) = Null
       \<and> session_get (userProperty' config) (snd (blitzwareAuth config w)) = Null"
  using assms
  by (auto simp add: blitzwareAuth_def refresh_try_def Let_def clear_session_def
      session_get_def isl_def split: option.splits sum.splits)

theorem C3_abandon_clears_and_redirects_witness:
  "fst (blitzwareAuth (default_config client_rejecting) (request_with (Some expired_session)))
     = Redirect ''/login''
   \<and> session_get ''accessToken''
        (snd (blitzwareAuth (default_config client_rejecting) (request_with (Some expired_session))))
       = Null
   \<and> session_get ''refreshToken''
        (snd (blitzwareAuth (default_config client_rejecting) (request_with (Some expired_session))))
       = Null
   \<and> session_get ''user''
        (snd (blitzwareAuth (default_config client_rejecting) (request_with (Some expired_session))))
       = Null"
  using C3_abandon_clears_and_redirects [where w = "request_with (Some expired_session)"
      and s = expired_session and config = "default_config client_rejecting"
      and ?e1.0 = token_inactive]
  by (simp add: example_defs option_defs)

text \<open>
  C1, as the code has it. The refresh succeeds and the profile cannot be fetched with the
  new access token: the exception is caught by the same handler as a failed refresh, so
  the three session properties are set to null and the response is the redirect to the
  login URL. No server error is sent.
\<close>

theorem C1_failed_profile_clears_and_redirects:
  assumes "session w = Some s"
    and "truthy (s (accessTokenProperty' config))"
    and "validateTokenAndGetUser (blitzware config) (s (accessTokenProperty' config)) = Inl e1"
    and "autoRefresh' config"
    and "truthy (s (refreshTokenProperty' config))"
    and "refreshToken (blitzware config) (s (refreshTokenProperty' config)) = Inr tokenResponse"
    and "getUserInfo (blitzware config) (access_token tokenResponse) = Inl e2"
  shows "fst (blitzwareAuth config w) = Redirect (loginUrl' config)
       \<and> \<not> is_server_error (fst (blitzwareAuth config w))
       \<and> session_get (accessTokenProperty' config) (snd (blitzwareAuth config w)) = Null
       \<and> session_get (refreshTokenProperty' config) (snd (blitzwareAuth config w)) = Null
       \<and> session_get (userProperty' config) (snd (blitzwareAuth config w)) = Null"
  using assms
  by (simp add: blitzwareAuth_def refresh_try_def Let_def clear_session_def store_tokens_def
      session_get_def split: option.splits)

theorem C1_failed_profile_clears_and_redirects_witness:
  "fst (blitzwareAuth (default_config client_profile_down) (request_with (Some expired_session)))
     = Redirect ''/login''
   \<and> session_get ''refreshToken''
        (snd (blitzwareAuth (default_config client_profile_down)
               (request_with (Some expired_session))))
       = Null"
  using C1_failed_profile_clears_and_redirects [where w = "request_with (Some expired_session)"
      and s = expired_session and config = "default_config client_profile_down"
      and ?e1.0 = token_inactive and tokenResponse = "new_tokens None"
      and ?e2.0 = userinfo_failed]
  by (simp add: example_defs option_defs)

text \<open>
  C1 as the specification words it (a server error, and the session left as it was) fails
  on the request below: the session holds
  the access token a1 and the refresh token r1, validation is rejected, the refresh
  returns the access token a2 and the profile request is rejected. The response is not a
  server error, and the session does not keep its tokens.
\<close>

theorem C1_counterexample:
  "validateTokenAndGetUser client_profile_down (expired_session ''accessToken'') = Inl token_inactive
   \<and> truthy (expired_session ''refreshToken'')
   \<and> refreshToken client_profile_down (expired_session ''refreshToken'') = Inr (new_tokens None)
   \<and> getUserInfo client_profile_down (access_token (new_tokens None)) = Inl userinfo_failed
   \<and> blitzwareAuth (default_config client_profile_down) (request_with (Some expired_session))
       = (Redirect ''/login'',
          (request_with (Some expired_session))
            \<lparr>session := Some (expired_session(''accessToken'' := Null, ''refreshToken'' := Null,
                 ''user'' := Null)),
             trace := [Call (ValidateTokenAndGetUser (JStr ''a1'')), Call (RefreshToken (JStr ''r1'')),
               Write ''accessToken'' (JStr ''a2''), Call (GetUserInfo ''a2''),
               Log LWarn ''Token refresh failed'', Write ''accessToken'' Null,
               Write ''refreshToken'' Null, Write ''user'' Null]\<rparr>)
   \<and> \<not> (is_server_error
            (fst (blitzwareAuth (default_config client_profile_down)
                    (request_with (Some expired_session))))
          \<and> session_get ''accessToken''
               (snd (blitzwareAuth (default_config client_profile_down)
                       (request_with (Some expired_session))))
             = session_get ''accessToken'' (request_with (Some expired_session))
          \<and> session_get ''refreshToken''
               (snd (blitzwareAuth (default_config client_profile_down)
                       (request_with (Some expired_session))))
             = session_get ''refreshToken'' (request_with (Some expired_session)))"
  by (simp add: blitzwareAuth_def refresh_try_def Let_def clear_session_def store_tokens_def
      session_set_def emit_def session_get_def example_defs option_defs)

text \<open>
  C5. The access token fails validation, auto-refresh is on, the session holds a refresh
  token, and the refresh and the profile request both succeed. With an access-token key
  that differs from the two other keys, the session holds the new access token, and it
  holds the fetched profile under the user key; with \<^verbatim>\<open>attachUser\<close> the request
  carries the profile and the new access token; the next handler is called.
\<close>

theorem C5_refresh_success:
  assumes "session w = Some s"
    and "truthy (s (accessTokenProperty' config))"
    and "validateTokenAndGetUser (blitzware config) (s (accessTokenProperty' config)) = Inl e1"
    and "autoRefresh' config"
    and "truthy (s (refreshTokenProperty' config))"
    and "refreshToken (blitzware config) (s (refreshTokenProperty' config)) = Inr tokenResponse"
    and "getUserInfo (blitzware config) (access_token tokenResponse) = Inr user"
    and "accessTokenProperty' config \<noteq> refreshTokenProperty' config"
    and "accessTokenProperty' config \<noteq> userProperty' config"
  shows "fst (blitzwareAuth config w) = CallNext
       \<and> session_get (accessTokenProperty' config) (snd (blitzwareAuth config w))
           = JStr (access_token tokenResponse)
       \<and> session_get (userProperty' config) (snd (blitzwareAuth config w)) = JObj user
       \<and> (attachUser' config \<longrightarrow>
            blitzwareUser (snd (blitzwareAuth config w)) = JObj user
            \<and> blitzwareAccessToken (snd (blitzwareAuth config w))
                = JStr (access_token tokenResponse))"
  using assms
  by (simp add: blitzwareAuth_def refresh_try_def Let_def store_tokens_def attach_def
      session_set_def emit_def session_get_def split: option.splits)

theorem C5_refresh_success_witness:
  "fst (blitzwareAuth (default_config (client_refreshing (Some ''r2'')))
          (request_with (Some expired_session))) = CallNext
   \<and> session_get ''accessToken''
        (snd (blitzwareAuth (default_config (client_refreshing (Some ''r2'')))
               (request_with (Some expired_session)))) = JStr ''a2''
   \<and> session_get ''user''
        (snd (blitzwareAuth (default_config (client_refreshing (Some ''r2'')))
               (request_with (Some expired_session)))) = JObj alice
   \<and> blitzwareUser
        (snd (blitzwareAuth (default_config (client_refreshing (Some ''r2'')))
               (request_with (Some expired_session)))) = JObj alice
   \<and> blitzwareAccessToken
        (snd (blitzwareAuth (default_config (client_refreshing (Some ''r2'')))
               (request_with (Some expired_session)))) = JStr ''a2''"
  using C5_refresh_success [where w = "request_with (Some expired_session)"
      and s = expired_session and config = "default_config (client_refreshing (Some ''r2''))"
      and ?e1.0 = token_inactive and tokenResponse = "new_tokens (Some ''r2'')"
      and user = alice]
  by (simp add: example_defs option_defs)

text \<open>
  C9. On the refresh path, once the refresh call has returned a token response, the
  assignments made before the profile request are the access token and, only when the
  response carries a refresh token (a string that is not empty), the refresh token. When
  the profile request succeeds as well and the refresh-token key differs from the two
  other keys, the session ends with the old refresh token if none was issued (every
  property but the access token and the user is then as it was) and with the new one if
  one was.
\<close>

theorem C9_refresh_token_kept_unless_reissued:
  assumes "session w = Some s"
    and "truthy (s (accessTokenProperty' config))"
    and "validateTokenAndGetUser (blitzware config) (s (accessTokenProperty' config)) = Inl e1"
    and "autoRefresh' config"
    and "truthy (s (refreshTokenProperty' config))"
    and "refreshToken (blitzware config) (s (refreshTokenProperty' config)) = Inr tokenResponse"
  shows "(\<exists>rest. trace (snd (blitzwareAuth config w)) =
            trace w
            @ [Call (ValidateTokenAndGetUser (s (accessTokenProperty' config))),
               Call (RefreshToken (s (refreshTokenProperty' config))),
               Write (accessTokenProperty' config) (JStr (access_token tokenResponse))]
            @ (case refresh_token tokenResponse of
                 None \<Rightarrow> []
               | Some r \<Rightarrow> if r \<noteq> [] then [Write (refreshTokenProperty' config) (JStr r)] else [])
            @ Call (GetUserInfo (access_token tokenResponse)) # rest)
       \<and> (\<not> isl (getUserInfo (blitzware config) (access_token tokenResponse))
            \<and> refreshTokenProperty' config \<noteq> accessTokenProperty' config
            \<and> refreshTokenProperty' config \<noteq> userProperty' config \<longrightarrow>
            (refresh_token tokenResponse = None \<longrightarrow>
               session_get (refreshTokenProperty' config) (snd (blitzwareAuth config w))
                 = s (refreshTokenProperty' config)
               \<and> (\<forall>k. k \<noteq> accessTokenProperty' config \<and> k \<noteq> userProperty' config \<longrightarrow>
                      session_get k (snd (blitzwareAuth config w)) = s k))
            \<and> (\<forall>r. refresh_token tokenResponse = Some r \<and> r \<noteq> [] \<longrightarrow>
                  session_get (refreshTokenProperty' config) (snd (blitzwareAuth config w))
                    = JStr r))"
proof (cases "getUserInfo (blitzware config) (access_token tokenResponse)")
  case (Inl e2)
  with assms show ?thesis
    by (simp add: blitzwareAuth_def refresh_try_def Let_def store_tokens_def clear_session_def
        split: option.splits)
next
  case (Inr user)
  with assms show ?thesis
    by (simp add: blitzwareAuth_def refresh_try_def Let_def store_tokens_def attach_def
        session_set_def emit_def session_get_def split: option.splits)
qed

theorem C9_refresh_token_kept_unless_reissued_witness:
  "refresh_token (new_tokens None) = None
   \<and> session_get ''refreshToken''
        (snd (blitzwareAuth (default_config (client_refreshing None))
               (request_with (Some expired_session)))) = JStr ''r1''
   \<and> writes (trace (snd (blitzwareAuth (default_config (client_refreshing None))
               (request_with (Some expired_session)))))
       = [(''accessToken'', JStr ''a2''), (''user'', JObj alice)]
   \<and> session_get ''refreshToken''
        (snd (blitzwareAuth (default_config (client_refreshing (Some ''r2'')))
               (request_with (Some expired_session)))) = JStr ''r2''"
  using C9_refresh_token_kept_unless_reissued [where w = "request_with (Some expired_session)"
      and s = expired_session and config = "default_config (client_refreshing None)"
      and ?e1.0 = token_inactive and tokenResponse = "new_tokens None"]
    C9_refresh_token_kept_unless_reissued [where w = "request_with (Some expired_session)"
      and s = expired_session and config = "default_config (client_refreshing (Some ''r2''))"
      and ?e1.0 = token_inactive and tokenResponse = "new_tokens (Some ''r2'')"]
  by (simp add: blitzwareAuth_def refresh_try_def Let_def store_tokens_def attach_def
      session_set_def emit_def session_get_def example_defs option_defs)

section \<open>The callback handler: outcomes\<close>

text \<open>
  C2, as the code has it. With a session present, a callback that succeeds (the code
  exchange and the profile request both succeed) redirects to the success location with
  the state and code-verifier properties set to null. A callback that fails (either call
  throws) does not assign them: with keys that differ from the two token keys they hold
  the values they had before.
\<close>

theorem C2_state_cleared_on_success_only:
  assumes "session w = Some s"
  shows "(\<forall>r. fst (callback_try config w) = Inr r \<longrightarrow>
            fst (blitzwareCallback newURL config w) = Redirect (successRedirect' config)
            \<and> session_get (stateProperty' config) (snd (blitzwareCallback newURL config w)) = Null
            \<and> session_get (codeVerifierProperty' config) (snd (blitzwareCallback newURL config w))
                = Null)
       \<and> (\<forall>e. fst (callback_try config w) = Inl e
              \<and> stateProperty' config \<noteq> cb_accessTokenProperty' config
              \<and> stateProperty' config \<noteq> cb_refreshTokenProperty' config
              \<and> codeVerifierProperty' config \<noteq> cb_accessTokenProperty' config
              \<and> codeVerifierProperty' config \<noteq> cb_refreshTokenProperty' config \<longrightarrow>
            session_get (stateProperty' config) (snd (blitzwareCallback newURL config w))
              = s (stateProperty' config)
            \<and> session_get (codeVerifierProperty' config) (snd (blitzwareCallback newURL config w))
                = s (codeVerifierProperty' config))"
  using assms
  by (auto simp add: blitzwareCallback_def callback_try_def callback_catch_def Let_def
      store_tokens_def session_set_def emit_def session_get_def
      split: sum.splits option.splits error.splits)

theorem C2_state_cleared_on_success_only_witness:
  "fst (callback_try (default_callback (client_refreshing None)) (request_with (Some login_session)))
     = Inr (Redirect ''/'')
   \<and> session_get ''oauthState''
        (snd (blitzwareCallback login_URL (default_callback (client_refreshing None))
               (request_with (Some login_session)))) = Null
   \<and> session_get ''codeVerifier''
        (snd (blitzwareCallback login_URL (default_callback (client_refreshing None))
               (request_with (Some login_session)))) = Null
   \<and> fst (callback_try (default_callback client_profile_down) (request_with (Some login_session)))
       = Inl userinfo_failed
   \<and> session_get ''oauthState''
        (snd (blitzwareCallback login_URL (default_callback client_profile_down)
               (request_with (Some login_session)))) = JStr ''st1''
   \<and> session_get ''codeVerifier''
        (snd (blitzwareCallback login_URL (default_callback client_profile_down)
               (request_with (Some login_session)))) = JStr ''cv1''"
  using C2_state_cleared_on_success_only [where w = "request_with (Some login_session)"
      and s = login_session and config = "default_callback (client_refreshing None)"
      and newURL = login_URL]
    C2_state_cleared_on_success_only [where w = "request_with (Some login_session)"
      and s = login_session and config = "default_callback client_profile_down"
      and newURL = login_URL]
  by (simp add: callback_try_def Let_def store_tokens_def session_set_def emit_def
      session_get_def example_defs option_defs)

text \<open>
  C2 as the specification words it (both properties cleared also when the callback
  fails) fails on the request below: the session holds
  the state st1 and the verifier cv1 and the code exchange is rejected with
  \<^verbatim>\<open>invalid_state\<close>. The handler redirects to the failure location and both properties
  still hold their values.
\<close>

theorem C2_counterexample:
  "session (request_with (Some login_session)) = Some login_session
   \<and> fst (callback_try (default_callback client_rejecting) (request_with (Some login_session)))
       = Inl invalid_state
   \<and> fst (blitzwareCallback login_URL (default_callback client_rejecting)
            (request_with (Some login_session)))
       = Redirect ''http://localhost:3000/login?error=auth_failed&error_code=invalid_state''
   \<and> session_get ''oauthState''
        (snd (blitzwareCallback login_URL (default_callback client_rejecting)
               (request_with (Some login_session)))) = JStr ''st1''
   \<and> session_get ''codeVerifier''
        (snd (blitzwareCallback login_URL (default_callback client_rejecting)
               (request_with (Some login_session)))) = JStr ''cv1''
   \<and> \<not> (\<not> truthy (session_get ''oauthState''
                 (snd (blitzwareCallback login_URL (default_callback client_rejecting)
                        (request_with (Some login_session)))))
          \<and> \<not> truthy (session_get ''codeVerifier''
                 (snd (blitzwareCallback login_URL (default_callback client_rejecting)
                        (request_with (Some login_session))))))"
  by (simp add: blitzwareCallback_def callback_try_def callback_catch_def Let_def
      request_base_def URL_toString_def urlencode_def urlencode_byte_def hex_digit_def
      session_set_def emit_def session_get_def example_defs option_defs)

text \<open>
  The callback fails with a structured error (the code exchange or the profile
  request throws a \<^verbatim>\<open>BlitzWareAuthError\<close>) and the URL constructor accepts the
  configured failure location. The response is the redirect to that location with the
  query updated by \<^verbatim>\<open>searchParams.set("error_code", code)\<close>: exactly one pair named
  \<^verbatim>\<open>error_code\<close>, holding the code, and the other pairs as configured. The message and
  the details of the error have no part in it: the \<^verbatim>\<open>catch\<close> block does the same for
  every message.
\<close>

lemma callback_structured_failure_redirect:
  assumes "session w = Some s"
    and "fst (callback_try config w) = Inl (BlitzWareAuthError code msg details)"
    and "newURL (errorRedirect' config) (request_base w) = Some url"
  shows "fst (blitzwareCallback newURL config w)
           = Redirect (URL_toString
               (url\<lparr>searchParams := searchParams_set ''error_code'' code (searchParams url)\<rparr>))
       \<and> filter (\<lambda>p. fst p = ''error_code'')
             (searchParams_set ''error_code'' code (searchParams url))
           = [(''error_code'', code)]
       \<and> filter (\<lambda>p. fst p \<noteq> ''error_code'')
             (searchParams_set ''error_code'' code (searchParams url))
           = filter (\<lambda>p. fst p \<noteq> ''error_code'') (searchParams url)
       \<and> (\<forall>msg' details'.
             callback_catch newURL config (BlitzWareAuthError code msg' details') w'
               = callback_catch newURL config (BlitzWareAuthError code msg details) w')"
proof -
  obtain w1 where tried: "callback_try config w = (Inl (BlitzWareAuthError code msg details), w1)"
    using assms(2) by (cases "callback_try config w") simp
  have "request_base w1 = request_base w"
    using tried request_base_callback_try [of config w] by simp
  with assms(1,3) tried
  have "fst (blitzwareCallback newURL config w)
          = Redirect (URL_toString
              (url\<lparr>searchParams := searchParams_set ''error_code'' code (searchParams url)\<rparr>))"
    by (simp add: blitzwareCallback_def callback_catch_def Let_def request_base_def)
  moreover have "\<forall>msg' details'.
      callback_catch newURL config (BlitzWareAuthError code msg' details') w'
        = callback_catch newURL config (BlitzWareAuthError code msg details) w'"
    by (simp add: callback_catch_def Let_def split: option.splits)
  ultimately show ?thesis
    by (simp add: searchParams_set_same searchParams_set_others)
qed

lemma callback_structured_failure_redirect_example:
  "fst (callback_try (default_callback client_rejecting) (request_with (Some login_session)))
     = Inl (BlitzWareAuthError ''invalid_state'' ''Invalid state parameter'' None)
   \<and> login_URL ''/login?error=auth_failed'' ''http://localhost:3000''
       = Some \<lparr>url_path = ''http://localhost:3000/login'',
                searchParams = [(''error'', ''auth_failed'')], hash = []\<rparr>
   \<and> fst (blitzwareCallback login_URL (default_callback client_rejecting)
            (request_with (Some login_session)))
       = Redirect ''http://localhost:3000/login?error=auth_failed&error_code=invalid_state''"
  using callback_structured_failure_redirect [where w = "request_with (Some login_session)"
      and s = login_session and config = "default_callback client_rejecting"
      and newURL = login_URL and code = "''invalid_state''"
      and msg = "''Invalid state parameter''" and details = None
      and url = "\<lparr>url_path = ''http://localhost:3000/login'',
                   searchParams = [(''error'', ''auth_failed'')], hash = []\<rparr>"]
  by (simp add: callback_try_def Let_def request_base_def URL_toString_def urlencode_def
      urlencode_byte_def hex_digit_def session_get_def example_defs option_defs)

text \<open>
  C8. The redirect with \<^verbatim>\<open>error_code\<close> is what the \<^verbatim>\<open>catch\<close> block is written to
  send for every structured failure, but the URL constructor is called inside that block
  with nothing around it. On the request below the Host header is empty, so the base is
  \<^verbatim>\<open>http://\<close>, which the constructor refuses; the code exchange is rejected with
  \<^verbatim>\<open>invalid_state\<close>. The constructor's exception leaves the handler: no redirect is
  sent, and no response at all.
\<close>

theorem C8_empty_host_no_redirect:
  "session (request_with_empty_host (Some login_session)) = Some login_session
   \<and> fst (callback_try (default_callback client_rejecting)
            (request_with_empty_host (Some login_session)))
       = Inl (BlitzWareAuthError ''invalid_state'' ''Invalid state parameter'' None)
   \<and> errorRedirect' (default_callback client_rejecting) = ''/login?error=auth_failed''
   \<and> request_base (request_with_empty_host (Some login_session)) = ''http://''
   \<and> URL_requiring_host ''/login?error=auth_failed'' ''http://'' = None
   \<and> fst (blitzwareCallback URL_requiring_host (default_callback client_rejecting)
            (request_with_empty_host (Some login_session)))
       = Throw (OtherError ''Invalid URL'')
   \<and> \<not> is_redirect
         (fst (blitzwareCallback URL_requiring_host (default_callback client_rejecting)
                 (request_with_empty_host (Some login_session))))"
  by (simp add: blitzwareCallback_def callback_try_def callback_catch_def Let_def
      request_base_def session_get_def emit_def URL_requiring_host_def
      request_with_empty_host_def example_defs option_defs)

text \<open>
  C10. The callback fails with an error that is not a \<^verbatim>\<open>BlitzWareAuthError\<close> and the
  URL constructor accepts the configured failure location. The response is the redirect
  to that location with the query updated by \<^verbatim>\<open>searchParams.set("error", "auth_failed")\<close>:
  exactly one pair named \<^verbatim>\<open>error\<close>, holding \<^verbatim>\<open>auth_failed\<close>, and the pairs named
  \<^verbatim>\<open>error_code\<close> are those of the configured location, so none is added.
\<close>

theorem C10_other_failure_redirects_with_error:
  assumes "session w = Some s"
    and "fst (callback_try config w) = Inl (OtherError msg)"
    and "newURL (errorRedirect' config) (request_base w) = Some url"
  shows "fst (blitzwareCallback newURL config w)
           = Redirect (URL_toString
               (url\<lparr>searchParams := searchParams_set ''error'' ''auth_failed'' (searchParams url)\<rparr>))
       \<and> filter (\<lambda>p. fst p = ''error'')
             (searchParams_set ''error'' ''auth_failed'' (searchParams url))
           = [(''error'', ''auth_failed'')]
       \<and> filter (\<lambda>p. fst p = ''error_code'')
             (searchParams_set ''error'' ''auth_failed'' (searchParams url))
           = filter (\<lambda>p. fst p = ''error_code'') (searchParams url)"
proof -
  obtain w1 where tried: "callback_try config w = (Inl (OtherError msg), w1)"
    using assms(2) by (cases "callback_try config w") simp
  have "request_base w1 = request_base w"
    using tried request_base_callback_try [of config w] by simp
  with assms(1,3) tried
  have "fst (blitzwareCallback newURL config w)
          = Redirect (URL_toString
              (url\<lparr>searchParams := searchParams_set ''error'' ''auth_failed'' (searchParams url)\<rparr>))"
    by (simp add: blitzwareCallback_def callback_catch_def Let_def request_base_def)
  moreover have "filter (\<lambda>p. fst p = ''error_code'')
        (searchParams_set ''error'' ''auth_failed'' (searchParams url))
      = filter (\<lambda>p. fst p = ''error_code'') (searchParams url)"
    by (rule searchParams_set_other_name) simp
  ultimately show ?thesis
    by (simp add: searchParams_set_same)
qed

theorem C10_other_failure_redirects_with_error_witness:
  "fst (callback_try (default_callback client_crashing) (request_with (Some login_session)))
     = Inl (OtherError ''socket hang up'')
   \<and> fst (blitzwareCallback login_URL (default_callback client_crashing)
            (request_with (Some login_session)))
       = Redirect ''http://localhost:3000/login?error=auth_failed''"
  using C10_other_failure_redirects_with_error [where w = "request_with (Some login_session)"
      and s = login_session and config = "default_callback client_crashing"
      and newURL = login_URL and msg = "''socket hang up''"
      and url = "\<lparr>url_path = ''http://localhost:3000/login'',
                   searchParams = [(''error'', ''auth_failed'')], hash = []\<rparr>"]
  by (simp add: callback_try_def Let_def request_base_def URL_toString_def urlencode_def
      urlencode_byte_def hex_digit_def session_get_def example_defs option_defs)

section \<open>The logout handler: outcomes\<close>




end
